theory Spec2Isabelle
  imports Complex_Main
begin

section \<open>Preconditioners (preconditioner.cc)\<close>

text \<open>
  The enumeration \<open>PreconditionerType\<close>. Its declaration is not among the sources; the
  values are the ones the solver documentation lists for
  \<open>Solver::Options::preconditioner_type\<close>, in that order.
\<close>

datatype PreconditionerType =
    IDENTITY
  | JACOBI
  | SCHUR_JACOBI
  | CLUSTER_JACOBI
  | CLUSTER_TRIDIAGONAL
  | SUBSET
  | SCHUR_POWER_SERIES_EXPANSION

text \<open>
  \<^verbatim>\<open>
  PreconditionerType Preconditioner::PreconditionerForZeroEBlocks(
      PreconditionerType preconditioner_type) {
    if (preconditioner_type == SCHUR_JACOBI ||
        preconditioner_type == CLUSTER_JACOBI ||
        preconditioner_type == CLUSTER_TRIDIAGONAL) {
      return JACOBI;
    }
    return preconditioner_type;
  }
  \<close>
\<close>

definition PreconditionerForZeroEBlocks :: "PreconditionerType \<Rightarrow> PreconditionerType" where
  "PreconditionerForZeroEBlocks preconditioner_type =
     (if preconditioner_type = SCHUR_JACOBI \<or>
         preconditioner_type = CLUSTER_JACOBI \<or>
         preconditioner_type = CLUSTER_TRIDIAGONAL
      then JACOBI
      else preconditioner_type)"

text \<open>
  A sparse matrix is kept as the list of its rows, a vector as the list of its entries;
  doubles are read as real numbers.

  Modelled from the spec: \<open>SparseMatrix::RightMultiplyAndAccumulate\<close>, whose
  implementations are not among the sources. The spec's contract for a linear operator is
  \<open>y += A x\<close>; the execution context and the thread count only partition the work.
\<close>

type_synonym SparseMatrix = "real list list"

definition dot :: "real list \<Rightarrow> real list \<Rightarrow> real" where
  "dot u v = sum_list (map2 (*) u v)"

definition SparseMatrix_RightMultiplyAndAccumulate ::
  "SparseMatrix \<Rightarrow> real list \<Rightarrow> real list \<Rightarrow> real list" where
  "SparseMatrix_RightMultiplyAndAccumulate A x y = map2 (\<lambda>row yi. yi + dot row x) A y"

definition SparseMatrix_num_rows :: "SparseMatrix \<Rightarrow> int" where
  "SparseMatrix_num_rows A = int (length A)"

text \<open>
  \<open>Preconditioner::Options\<close>: of its fields the wrapper reads \<open>context\<close> and
  \<open>num_threads\<close>. The context is an opaque handle, kept as a number (the field is named
  \<open>options_context\<close> here, \<open>context\<close> being a keyword).
\<close>

record Preconditioner_Options =
  num_threads :: int
  options_context :: nat

text \<open>
  The object \<open>SparseMatrixPreconditionerWrapper\<close>: the members \<open>matrix_\<close> and
  \<open>options_\<close> set by its constructor (written without the trailing underscore, which
  a name cannot end with here). The constructor's check that the matrix is not null has no
  counterpart: the record holds the matrix itself.
\<close>

record SparseMatrixPreconditionerWrapper =
  matrix :: SparseMatrix
  options :: Preconditioner_Options

text \<open>
  \<^verbatim>\<open>
  bool SparseMatrixPreconditionerWrapper::UpdateImpl(const SparseMatrix& /*A*/,
                                                     const double* /*D*/) {
    return true;
  }
  \<close>
  The method is given the object and returns it with the result; \<open>D\<close> may be a null
  pointer, which is \<open>None\<close>.
\<close>

definition UpdateImpl ::
  "SparseMatrixPreconditionerWrapper \<Rightarrow> SparseMatrix \<Rightarrow> real list option
     \<Rightarrow> bool \<times> SparseMatrixPreconditionerWrapper" where
  "UpdateImpl this A D = (True, this)"

text \<open>
  \<^verbatim>\<open>
  void SparseMatrixPreconditionerWrapper::RightMultiplyAndAccumulate(
      const double* x, double* y) const {
    matrix_->RightMultiplyAndAccumulate(
        x, y, options_.context, options_.num_threads);
  }
  \<close>
  The result is the new content of \<open>y\<close>.
\<close>

definition RightMultiplyAndAccumulate ::
  "SparseMatrixPreconditionerWrapper \<Rightarrow> real list \<Rightarrow> real list \<Rightarrow> real list" where
  "RightMultiplyAndAccumulate this x y =
     SparseMatrix_RightMultiplyAndAccumulate (matrix this) x y"

definition num_rows :: "SparseMatrixPreconditionerWrapper \<Rightarrow> int" where
  "num_rows this = SparseMatrix_num_rows (matrix this)"


section \<open>The trust-region minimizer\<close>

text \<open>
  The minimizer loop, the option validation and the trust-region strategies are code of
  this repository that is not among the sources; what the sources hold on them is the
  solver documentation (\<open>nnls_solving\<close>). The definitions of this section are therefore
  written from the spec and from that documentation, and each says which sentences it
  follows. Doubles are read as real numbers, so rounding, overflow and NaN have no
  counterpart; a step with non-finite entries is a result of its own of the strategy. The
  wall-clock budget, inner iterations, bounds constraints and the line-search minimizer are
  left out: the model is of one trust-region solve without a time limit.
\<close>

subsection \<open>Options\<close>

datatype TrustRegionStrategyType = LEVENBERG_MARQUARDT | DOGLEG

datatype DoglegType = TRADITIONAL_DOGLEG | SUBSPACE_DOGLEG

datatype LinearSolverType =
    DENSE_QR
  | DENSE_NORMAL_CHOLESKY
  | SPARSE_NORMAL_CHOLESKY
  | CGNR
  | DENSE_SCHUR
  | SPARSE_SCHUR
  | ITERATIVE_SCHUR

datatype CallbackReturnType = SOLVER_CONTINUE | SOLVER_ABORT | SOLVER_TERMINATE_SUCCESSFULLY

datatype TerminationType = CONVERGENCE | NO_CONVERGENCE | FAILURE | USER_SUCCESS | USER_FAILURE

text \<open>
  \<open>IterationSummary\<close>, with the members of the documentation that a trust-region
  iteration fills in.
\<close>

record IterationSummary =
  iteration :: int
  step_is_valid :: bool
  step_is_nonmonotonic :: bool
  step_is_successful :: bool
  cost :: real
  cost_change :: real
  gradient_max_norm :: real
  step_norm :: real
  relative_decrease :: real
  trust_region_radius :: real

text \<open>
  \<open>Solver::Options\<close>, with the members the trust-region minimizer reads; the types are
  the documented ones (\<open>int\<close>, \<open>double\<close>, \<open>bool\<close>, the enumerations and the vector of
  callbacks).
\<close>

record Solver_Options =
  trust_region_strategy_type :: TrustRegionStrategyType
  dogleg_type :: DoglegType
  linear_solver_type :: LinearSolverType
  preconditioner_type :: PreconditionerType
  use_nonmonotonic_steps :: bool
  max_consecutive_nonmonotonic_steps :: int
  max_num_iterations :: int
  initial_trust_region_radius :: real
  max_trust_region_radius :: real
  min_trust_region_radius :: real
  min_relative_decrease :: real
  max_num_consecutive_invalid_steps :: int
  function_tolerance :: real
  gradient_tolerance :: real
  parameter_tolerance :: real
  update_state_every_iteration :: bool
  callbacks :: "(IterationSummary \<Rightarrow> CallbackReturnType) list"

text \<open>
  The iterative linear solvers: the spec's inexact-step solvers, Conjugate Gradients on the
  normal equations and on the Schur complement. The others factorize.
\<close>

definition is_iterative_solver :: "LinearSolverType \<Rightarrow> bool" where
  "is_iterative_solver t = (t = CGNR \<or> t = ITERATIVE_SCHUR)"

text \<open>
  Modelled from the spec: \<open>Solver::Options::IsValid\<close>, documented as returning true on
  success and false with \<open>error\<close> holding a description of the cause. The one check is
  the one the spec and the documentation state: Dogleg requires an exact-factorization
  linear solver, "validated at configuration time" (sections 4.4 and 7a). The result is
  \<open>Inl error\<close> for false and \<open>Inr ()\<close> for true.
\<close>

definition IsValid :: "Solver_Options \<Rightarrow> string + unit" where
  "IsValid opts =
     (if trust_region_strategy_type opts = DOGLEG \<and> is_iterative_solver (linear_solver_type opts)
      then Inl ''DOGLEG only supports exact factorization based linear solvers; use LEVENBERG_MARQUARDT with an iterative linear solver.''
      else Inr ())"

subsection \<open>The problem and the strategy, as the loop sees them\<close>

text \<open>
  What a trust-region strategy hands back for one radius: the failure of its linear solver,
  a step with non-finite entries, or a step \<open>\<Delta>x\<close> together with the decrease of the
  linearized model it predicts, \<open>\<onehalf>\<parallel>F\<parallel>\<^sup>2 - \<onehalf>\<parallel>J \<Delta>x + F\<parallel>\<^sup>2\<close>.
\<close>

datatype TrustRegionStep =
    LinearSolverFailure
  | NonFiniteStep
  | Step "real list" real

text \<open>
  Modelled from the spec: the external collaborators of the loop (sections 1 and 6), as
  functions. \<open>Evaluate\<close> is the cost \<open>\<onehalf>\<parallel>F(x)\<parallel>\<^sup>2\<close> of the evaluator, \<open>GradientMaxNorm\<close> the
  norm it reports for the gradient tolerance, \<open>Plus\<close> the manifold update, \<open>Norm\<close> the
  2-norm of the linear-algebra backend (used for the parameter tolerance), and
  \<open>ComputeStep\<close> the active strategy with its linear solver, asked with the iterations so
  far (a strategy may keep state between calls), the current point and the current radius.
  \<open>eta_1\<close> and \<open>eta_2\<close> are the thresholds of the documented radius update ("if \<open>\<rho> > \<eta>\<^sub>1\<close>
  then \<open>\<mu> = 2\<mu>\<close>, else if \<open>\<rho> < \<eta>\<^sub>2\<close> then \<open>\<mu> = 0.5 \<mu>\<close>"), for which no value is given.
  \<open>relaxed_threshold\<close> is the relaxed acceptance threshold of the non-monotonic mode: the
  spec says that it is computed over the last \<open>max_consecutive_nonmonotonic_steps\<close>
  iterations and the best cost so far and not how, so it is a function of these.
\<close>

record Problem =
  Evaluate :: "real list \<Rightarrow> real"
  GradientMaxNorm :: "real list \<Rightarrow> real"
  Plus :: "real list \<Rightarrow> real list \<Rightarrow> real list"
  Norm :: "real list \<Rightarrow> real"
  ComputeStep :: "IterationSummary list \<Rightarrow> real list \<Rightarrow> real \<Rightarrow> TrustRegionStep"
  eta_1 :: real
  eta_2 :: real
  relaxed_threshold :: "IterationSummary list \<Rightarrow> real \<Rightarrow> real"

subsection \<open>The state of the loop\<close>

datatype TerminationReason =
    MaxIterationsReached
  | FunctionToleranceReached
  | GradientToleranceReached
  | ParameterToleranceReached
  | MinTrustRegionRadiusReached
  | TooManyInvalidSteps
  | CallbackAbort
  | CallbackSuccess

text \<open>
  Modelled from the spec: the trust-region state of section 3. \<open>cur_x\<close> and \<open>cur_cost\<close>
  are the current point and its cost, \<open>best_x\<close> and \<open>minimum_cost\<close> the best point so far and
  its cost, "tracked separately from the current accepted cost". \<open>iterations\<close> is the audit
  trail. \<open>visited\<close> is not state of the solver: it records the current point at the end of
  every iteration, next to its summary, so that properties can speak of the iterates.
\<close>

record MinimizerState =
  cur_x :: "real list"
  cur_cost :: real
  best_x :: "real list"
  minimum_cost :: real
  radius :: real
  num_consecutive_invalid_steps :: int
  iterations :: "IterationSummary list"
  visited :: "real list list"
  termination_reason :: "TerminationReason option"

text \<open>
  The end of an iteration: its summary, taken from the state the iteration has produced,
  is appended to the trail.
\<close>

definition record_iteration ::
  "Problem \<Rightarrow> bool \<Rightarrow> bool \<Rightarrow> bool \<Rightarrow> real \<Rightarrow> real \<Rightarrow> real \<Rightarrow> MinimizerState \<Rightarrow> MinimizerState" where
  "record_iteration P valid nonmonotonic successful change snorm rho s =
     s\<lparr>iterations := iterations s @
          [\<lparr>iteration = int (length (iterations s)),
            step_is_valid = valid,
            step_is_nonmonotonic = nonmonotonic,
            step_is_successful = successful,
            cost = cur_cost s,
            cost_change = change,
            gradient_max_norm = GradientMaxNorm P (cur_x s),
            step_norm = snorm,
            relative_decrease = rho,
            trust_region_radius = radius s\<rparr>],
       visited := visited s @ [cur_x s]\<rparr>"

text \<open>
  Modelled from the spec: the callbacks, "executed in the order that they are specified",
  each on the summary of the iteration just completed. \<open>SOLVER_ABORT\<close> and
  \<open>SOLVER_TERMINATE_SUCCESSFULLY\<close> end the solve.
\<close>

fun RunCallbacks ::
  "(IterationSummary \<Rightarrow> CallbackReturnType) list \<Rightarrow> IterationSummary \<Rightarrow> TerminationReason option" where
  "RunCallbacks [] summary = None"
| "RunCallbacks (cb # cbs) summary =
     (case cb summary of
        SOLVER_CONTINUE \<Rightarrow> RunCallbacks cbs summary
      | SOLVER_ABORT \<Rightarrow> Some CallbackAbort
      | SOLVER_TERMINATE_SUCCESSFULLY \<Rightarrow> Some CallbackSuccess)"

text \<open>
  Modelled from the spec: the termination tests between two iterations (section 4.5, step
  7, and step 5 for the radius): the verdict of the callbacks, the gradient tolerance
  \<open>\<parallel>g\<parallel>\<^sub>\<infinity> \<le> gradient_tolerance\<close>, and the radius having fallen below
  \<open>min_trust_region_radius\<close>. The iteration limit is the loop's own bound, below. The
  tests run right after \<open>record_iteration\<close>, so the trail is not empty and its last
  summary is the one of the iteration just completed.
\<close>

definition CheckTermination :: "Problem \<Rightarrow> Solver_Options \<Rightarrow> MinimizerState \<Rightarrow> MinimizerState" where
  "CheckTermination P opts s =
     (case RunCallbacks (callbacks opts) (last (iterations s)) of
        Some reason \<Rightarrow> s\<lparr>termination_reason := Some reason\<rparr>
      | None \<Rightarrow>
          if GradientMaxNorm P (cur_x s) \<le> gradient_tolerance opts
          then s\<lparr>termination_reason := Some GradientToleranceReached\<rparr>
          else if radius s < min_trust_region_radius opts
          then s\<lparr>termination_reason := Some MinTrustRegionRadiusReached\<rparr>
          else s)"


subsection \<open>One iteration\<close>

text \<open>
  Modelled from the spec: section 4.5, step 3, and 4.3/7b. An invalid step increments the
  counter of consecutive invalid steps; "if it exceeds
  \<open>max_num_consecutive_invalid_steps\<close>, terminate with failure"; otherwise the loop
  shrinks the radius and retries. The point and the costs stay.
\<close>

definition HandleInvalidStep :: "Problem \<Rightarrow> Solver_Options \<Rightarrow> MinimizerState \<Rightarrow> MinimizerState" where
  "HandleInvalidStep P opts s =
     (let n = num_consecutive_invalid_steps s + 1 in
      if n > max_num_consecutive_invalid_steps opts
      then record_iteration P False False False 0 0 0
             (s\<lparr>num_consecutive_invalid_steps := n,
                termination_reason := Some TooManyInvalidSteps\<rparr>)
      else CheckTermination P opts
             (record_iteration P False False False 0 0 0
                (s\<lparr>num_consecutive_invalid_steps := n, radius := 0.5 * radius s\<rparr>)))"

text \<open>
  Modelled from the spec: the iterations the relaxed threshold is computed over, the last
  \<open>max_consecutive_nonmonotonic_steps\<close> of the trail, the latest first.
\<close>

definition nonmonotonic_window :: "Solver_Options \<Rightarrow> MinimizerState \<Rightarrow> IterationSummary list" where
  "nonmonotonic_window opts s =
     take (nat (max_consecutive_nonmonotonic_steps opts)) (rev (iterations s))"

text \<open>
  Modelled from the spec: section 4.5, step 4. "Accept if \<open>\<rho> > min_relative_decrease\<close>, or
  if non-monotonic mode is enabled and \<open>\<rho>\<close> exceeds a relaxed threshold".
\<close>

definition IsStepSuccessful :: "Problem \<Rightarrow> Solver_Options \<Rightarrow> MinimizerState \<Rightarrow> real \<Rightarrow> bool" where
  "IsStepSuccessful P opts s rho =
     (rho > min_relative_decrease opts \<or>
      (use_nonmonotonic_steps opts \<and>
       rho > relaxed_threshold P (nonmonotonic_window opts s) (minimum_cost s)))"

text \<open>
  Modelled from the spec: section 4.5, step 5, with the thresholds of the documented
  algorithm. Grow by 2, bounded by \<open>max_trust_region_radius\<close>, on strong \<open>\<rho>\<close>; shrink by
  0.5 on weak or negative \<open>\<rho>\<close>.
\<close>

definition UpdateRadius :: "Problem \<Rightarrow> Solver_Options \<Rightarrow> real \<Rightarrow> real \<Rightarrow> real" where
  "UpdateRadius P opts rho mu =
     (if rho > eta_1 P then min (2 * mu) (max_trust_region_radius opts)
      else if rho < eta_2 P then 0.5 * mu
      else mu)"

text \<open>
  Modelled from the spec: an accepted step moves the current point; the best point so far
  moves with it only when the new cost is below the minimum so far.
\<close>

definition AcceptStep :: "real list \<Rightarrow> real \<Rightarrow> MinimizerState \<Rightarrow> MinimizerState" where
  "AcceptStep candidate_x candidate_cost s =
     s\<lparr>cur_x := candidate_x,
       cur_cost := candidate_cost,
       best_x := (if candidate_cost < minimum_cost s then candidate_x else best_x s),
       minimum_cost := (if candidate_cost < minimum_cost s then candidate_cost
                        else minimum_cost s)\<rparr>"

text \<open>
  Modelled from the spec: section 4.5, steps 2, 4, 5 and 7 for a valid step, in that order.
  The candidate is evaluated and \<open>\<rho>\<close> is the actual decrease over the predicted one
  (step 2); the step is accepted or rejected (step 4); the radius is updated (step 5); the
  counter of consecutive invalid steps is reset and the iteration is recorded. Then come
  the termination tests (step 7): the function tolerance
  \<open>|\<Delta>cost| / cost \<le> function_tolerance\<close> on an accepted step, the parameter tolerance
  \<open>\<parallel>\<Delta>x\<parallel> \<le> (\<parallel>x\<parallel> + parameter_tolerance) * parameter_tolerance\<close> on the step, and the
  tests of \<open>CheckTermination\<close>.
\<close>

definition HandleValidStep ::
  "Problem \<Rightarrow> Solver_Options \<Rightarrow> MinimizerState \<Rightarrow> real list \<Rightarrow> real \<Rightarrow> MinimizerState" where
  "HandleValidStep P opts s delta model_cost_change =
     (let snorm = Norm P delta;
          candidate_x = Plus P (cur_x s) delta;
          candidate_cost = Evaluate P candidate_x;
          change = cur_cost s - candidate_cost;
          rho = change / model_cost_change;
          successful = IsStepSuccessful P opts s rho;
          nonmonotonic = (successful \<and> \<not> rho > min_relative_decrease opts);
          s1 = (if successful then AcceptStep candidate_x candidate_cost s else s);
          s2 = s1\<lparr>radius := UpdateRadius P opts rho (radius s),
                  num_consecutive_invalid_steps := 0\<rparr>;
          s3 = record_iteration P True nonmonotonic successful change snorm rho s2
      in if successful \<and> 0 < cur_cost s
            \<and> \<bar>change\<bar> / cur_cost s \<le> function_tolerance opts
         then s3\<lparr>termination_reason := Some FunctionToleranceReached\<rparr>
         else if snorm \<le> (Norm P (cur_x s) + parameter_tolerance opts)
                           * parameter_tolerance opts
         then s3\<lparr>termination_reason := Some ParameterToleranceReached\<rparr>
         else CheckTermination P opts s3)"

text \<open>
  Modelled from the spec: section 4.5, steps 1 and 3. The strategy is asked for a step at
  the current radius; the step is invalid if the linear solver failed, if it is not finite,
  or if the model decrease is not positive.
\<close>

definition TrustRegionIteration :: "Problem \<Rightarrow> Solver_Options \<Rightarrow> MinimizerState \<Rightarrow> MinimizerState" where
  "TrustRegionIteration P opts s =
     (case ComputeStep P (iterations s) (cur_x s) (radius s) of
        LinearSolverFailure \<Rightarrow> HandleInvalidStep P opts s
      | NonFiniteStep \<Rightarrow> HandleInvalidStep P opts s
      | Step delta model_cost_change \<Rightarrow>
          if model_cost_change \<le> 0 then HandleInvalidStep P opts s
          else HandleValidStep P opts s delta model_cost_change)"

subsection \<open>The loop and the solve\<close>

text \<open>
  Modelled from the spec: the loop of section 4.5. Its third argument is the number of
  iterations still allowed, \<open>max_num_iterations\<close> at the start: when none is left the
  solve ends without convergence. Iterations are strictly ordered and the next one starts
  only if no termination test has fired.
\<close>

fun trust_region_loop :: "Problem \<Rightarrow> Solver_Options \<Rightarrow> nat \<Rightarrow> MinimizerState \<Rightarrow> MinimizerState" where
  "trust_region_loop P opts 0 s =
     (case termination_reason s of
        None \<Rightarrow> s\<lparr>termination_reason := Some MaxIterationsReached\<rparr>
      | Some reason \<Rightarrow> s)"
| "trust_region_loop P opts (Suc n) s =
     (case termination_reason s of
        None \<Rightarrow> trust_region_loop P opts n (TrustRegionIteration P opts s)
      | Some reason \<Rightarrow> s)"

text \<open>
  Modelled from the spec: the state "initialized before iteration 0". Iteration 0 evaluates
  the starting point, records its summary (no step: not valid, not successful) and runs
  the termination tests.
\<close>

definition StartState :: "Problem \<Rightarrow> Solver_Options \<Rightarrow> real list \<Rightarrow> MinimizerState" where
  "StartState P opts x0 =
     CheckTermination P opts
       (record_iteration P False False False 0 0 0
          \<lparr>cur_x = x0,
           cur_cost = Evaluate P x0,
           best_x = x0,
           minimum_cost = Evaluate P x0,
           radius = initial_trust_region_radius opts,
           num_consecutive_invalid_steps = 0,
           iterations = [],
           visited = [],
           termination_reason = None\<rparr>)"

definition Minimize :: "Problem \<Rightarrow> Solver_Options \<Rightarrow> real list \<Rightarrow> MinimizerState" where
  "Minimize P opts x0 =
     trust_region_loop P opts (nat (max_num_iterations opts)) (StartState P opts x0)"

text \<open>
  Modelled from the spec: the termination types of the documentation. Meeting a tolerance is
  \<open>CONVERGENCE\<close>, running to the iteration limit \<open>NO_CONVERGENCE\<close>, a callback's
  \<open>SOLVER_ABORT\<close> is \<open>USER_FAILURE\<close> and its \<open>SOLVER_TERMINATE_SUCCESSFULLY\<close>
  \<open>USER_SUCCESS\<close>; too many invalid steps "terminate with failure". For the radius falling
  below its minimum no type is documented; it is counted as convergence here.
\<close>

fun termination_type_of :: "TerminationReason \<Rightarrow> TerminationType" where
  "termination_type_of MaxIterationsReached = NO_CONVERGENCE"
| "termination_type_of FunctionToleranceReached = CONVERGENCE"
| "termination_type_of GradientToleranceReached = CONVERGENCE"
| "termination_type_of ParameterToleranceReached = CONVERGENCE"
| "termination_type_of MinTrustRegionRadiusReached = CONVERGENCE"
| "termination_type_of TooManyInvalidSteps = FAILURE"
| "termination_type_of CallbackAbort = USER_FAILURE"
| "termination_type_of CallbackSuccess = USER_SUCCESS"

text \<open>
  \<open>Solver::Summary\<close>, with the members the properties below read, and with the user's
  parameter blocks as they are when the solve returns (\<open>final_parameters\<close>).
\<close>

record Solver_Summary =
  termination_type :: TerminationType
  initial_cost :: real
  final_cost :: real
  summary_iterations :: "IterationSummary list"
  final_parameters :: "real list"

text \<open>
  Modelled from the spec: \<open>Solve\<close>. The options are validated before anything else and an
  invalid configuration is reported with its message (section 7a). Otherwise the minimizer
  runs and the user's parameter blocks receive the point of minimum cost (section 4.5),
  except, as the documentation of \<open>IterationCallback\<close> has it, after \<open>SOLVER_ABORT\<close>: then
  "the solver returns without updating the parameter blocks (unless
  \<open>update_state_every_iteration\<close> is set true)", in which case they hold the best solution
  found as well.
\<close>

definition Solve :: "Problem \<Rightarrow> Solver_Options \<Rightarrow> real list \<Rightarrow> string + Solver_Summary" where
  "Solve P opts x0 =
     (case IsValid opts of
        Inl error \<Rightarrow> Inl error
      | Inr _ \<Rightarrow>
          let s = Minimize P opts x0;
              untouched = (termination_reason s = Some CallbackAbort
                           \<and> \<not> update_state_every_iteration opts)
          in Inr \<lparr>termination_type =
                    (case termination_reason s of
                       Some reason \<Rightarrow> termination_type_of reason
                     | None \<Rightarrow> NO_CONVERGENCE),
                  initial_cost = Evaluate P x0,
                  final_cost = (if untouched then Evaluate P x0 else minimum_cost s),
                  summary_iterations = iterations s,
                  final_parameters = (if untouched then x0 else best_x s)\<rparr>)"


subsection \<open>Notions used by the properties\<close>



subsection \<open>Example problems\<close>

text \<open>
  Concrete inputs on which the properties below are evaluated. \<open>default_options\<close> holds the
  documented defaults. \<open>descent_problem\<close> is \<open>\<onehalf>\<parallel>x\<parallel>\<^sup>2\<close> with a strategy that
  always proposes the full step \<open>-x\<close>; \<open>abort_options\<close> adds a callback that aborts from
  iteration 1 on. \<open>bumpy_problem\<close> is a problem on which the second step raises the cost
  and is accepted only under the relaxed threshold of the non-monotonic mode. On
  \<open>uphill_problem\<close> the step from \<open>[0]\<close> raises the cost, so \<open>\<rho>\<close> is negative, and
  \<open>tight_radius_options\<close> leaves one halving of the radius before it falls below its
  minimum. \<open>dogleg_cgnr_options\<close> selects Dogleg together with an iterative solver.
\<close>

definition default_options :: Solver_Options where
  "default_options =
     \<lparr>trust_region_strategy_type = LEVENBERG_MARQUARDT,
      dogleg_type = TRADITIONAL_DOGLEG,
      linear_solver_type = DENSE_QR,
      preconditioner_type = JACOBI,
      use_nonmonotonic_steps = False,
      max_consecutive_nonmonotonic_steps = 5,
      max_num_iterations = 50,
      initial_trust_region_radius = 10000,
      max_trust_region_radius = 10 ^ 16,
      min_trust_region_radius = 1 / 10 ^ 32,
      min_relative_decrease = 1 / 1000,
      max_num_consecutive_invalid_steps = 5,
      function_tolerance = 1 / 10 ^ 6,
      gradient_tolerance = 1 / 10 ^ 10,
      parameter_tolerance = 1 / 10 ^ 8,
      update_state_every_iteration = False,
      callbacks = []\<rparr>"

definition descent_problem :: Problem where
  "descent_problem =
     \<lparr>Evaluate = (\<lambda>x. sum_list (map (\<lambda>a. a * a) x) / 2),
      GradientMaxNorm = (\<lambda>x. sum_list (map abs x)),
      Plus = map2 (+),
      Norm = (\<lambda>v. sum_list (map abs v)),
      ComputeStep = (\<lambda>history x mu. Step (map uminus x) (sum_list (map (\<lambda>a. a * a) x) / 2)),
      eta_1 = 3 / 4,
      eta_2 = 1 / 4,
      relaxed_threshold = (\<lambda>window best. 0)\<rparr>"

definition abort_after_first :: "IterationSummary \<Rightarrow> CallbackReturnType" where
  "abort_after_first summary = (if 1 \<le> iteration summary then SOLVER_ABORT else SOLVER_CONTINUE)"

definition abort_options :: Solver_Options where
  "abort_options = default_options\<lparr>callbacks := [abort_after_first]\<rparr>"

definition bumpy_problem :: Problem where
  "bumpy_problem =
     \<lparr>Evaluate = (\<lambda>x. if x = [0] then 3 else if x = [1] then 1 else 2),
      GradientMaxNorm = (\<lambda>x. 1),
      Plus = map2 (+),
      Norm = (\<lambda>v. sum_list (map abs v)),
      ComputeStep = (\<lambda>history x mu. Step [1] 1),
      eta_1 = 3 / 4,
      eta_2 = 1 / 4,
      relaxed_threshold = (\<lambda>window best. - 2)\<rparr>"

definition nonmonotonic_options :: Solver_Options where
  "nonmonotonic_options = default_options\<lparr>use_nonmonotonic_steps := True, max_num_iterations := 2\<rparr>"



definition dogleg_cgnr_options :: Solver_Options where
  "dogleg_cgnr_options =
     default_options\<lparr>trust_region_strategy_type := DOGLEG, linear_solver_type := CGNR\<rparr>"


subsection \<open>Invariants of the loop\<close>

text \<open>
  The invariant behind the returned point: the minimum cost is the cost of the best point,
  the best point is one of the iterates, every summary carries the cost of the iterate
  recorded with it, and no summary has a cost below the minimum.
\<close>

definition best_inv :: "Problem \<Rightarrow> MinimizerState \<Rightarrow> bool" where
  "best_inv P s \<longleftrightarrow>
     minimum_cost s = Evaluate P (best_x s)
     \<and> best_x s \<in> set (visited s)
     \<and> list_all2 (\<lambda>v summary. cost summary = Evaluate P v) (visited s) (iterations s)
     \<and> (\<forall>summary \<in> set (iterations s). minimum_cost s \<le> cost summary)
     \<and> cur_cost s = Evaluate P (cur_x s)
     \<and> minimum_cost s \<le> cur_cost s"




text \<open>
  How the radius recorded by one summary follows from the radius recorded by the summary
  before it: by \<open>UpdateRadius\<close> at the recorded \<open>\<rho>\<close> when the step was valid, by halving
  or not at all when it was invalid.
\<close>

definition RadiusUpdated ::
  "Problem \<Rightarrow> Solver_Options \<Rightarrow> IterationSummary \<Rightarrow> IterationSummary \<Rightarrow> bool" where
  "RadiusUpdated P opts previous summary \<longleftrightarrow>
     (if step_is_valid summary
      then trust_region_radius summary
             = UpdateRadius P opts (relative_decrease summary) (trust_region_radius previous)
      else trust_region_radius summary = trust_region_radius previous / 2
           \<or> trust_region_radius summary = trust_region_radius previous)"

text \<open>
  The invariant behind the radius updates: the last summary holds the current radius and
  every summary but the first is related to the one before it as above.
\<close>

definition update_inv :: "Problem \<Rightarrow> Solver_Options \<Rightarrow> MinimizerState \<Rightarrow> bool" where
  "update_inv P opts s \<longleftrightarrow>
     iterations s \<noteq> []
     \<and> trust_region_radius (last (iterations s)) = radius s
     \<and> (\<forall>i. Suc i < length (iterations s)
           \<longrightarrow> RadiusUpdated P opts (iterations s ! i) (iterations s ! Suc i))"


section \<open>Properties of the preconditioner code\<close>

text \<open>
  Claim C9. \<open>PreconditionerForZeroEBlocks\<close> maps \<open>SCHUR_JACOBI\<close>, \<open>CLUSTER_JACOBI\<close> and
  \<open>CLUSTER_TRIDIAGONAL\<close> to \<open>JACOBI\<close> and returns every other preconditioner type
  unchanged; so applying it twice is the same as applying it once, and none of the three
  types is ever a result.
\<close>

theorem PreconditionerForZeroEBlocks_spec:
  "(t \<in> {SCHUR_JACOBI, CLUSTER_JACOBI, CLUSTER_TRIDIAGONAL}
      \<longrightarrow> PreconditionerForZeroEBlocks t = JACOBI)
   \<and> (t \<notin> {SCHUR_JACOBI, CLUSTER_JACOBI, CLUSTER_TRIDIAGONAL}
      \<longrightarrow> PreconditionerForZeroEBlocks t = t)
   \<and> PreconditionerForZeroEBlocks (PreconditionerForZeroEBlocks t)
       = PreconditionerForZeroEBlocks t
   \<and> PreconditionerForZeroEBlocks t
       \<notin> {SCHUR_JACOBI, CLUSTER_JACOBI, CLUSTER_TRIDIAGONAL}"
  by (cases t) (simp_all add: PreconditionerForZeroEBlocks_def)

theorem PreconditionerForZeroEBlocks_spec_witness:
  "CLUSTER_JACOBI \<in> {SCHUR_JACOBI, CLUSTER_JACOBI, CLUSTER_TRIDIAGONAL}
   \<and> PreconditionerForZeroEBlocks CLUSTER_JACOBI = JACOBI
   \<and> SUBSET \<notin> {SCHUR_JACOBI, CLUSTER_JACOBI, CLUSTER_TRIDIAGONAL}
   \<and> PreconditionerForZeroEBlocks SUBSET = SUBSET"
proof -
  have a: "CLUSTER_JACOBI \<in> {SCHUR_JACOBI, CLUSTER_JACOBI, CLUSTER_TRIDIAGONAL}"
    by simp
  have b: "SUBSET \<notin> {SCHUR_JACOBI, CLUSTER_JACOBI, CLUSTER_TRIDIAGONAL}"
    by simp
  from a have "PreconditionerForZeroEBlocks CLUSTER_JACOBI = JACOBI"
    using PreconditionerForZeroEBlocks_spec [of CLUSTER_JACOBI] by blast
  moreover from b have "PreconditionerForZeroEBlocks SUBSET = SUBSET"
    using PreconditionerForZeroEBlocks_spec [of SUBSET] by blast
  ultimately show ?thesis using a b by blast
qed

text \<open>
  Claim C10. \<open>UpdateImpl\<close> of the sparse-matrix wrapper returns true for every matrix
  \<open>A\<close> and every damping vector \<open>D\<close>, and it leaves the object as it was: the wrapped
  matrix, the options, and with them what \<open>RightMultiplyAndAccumulate\<close> computes.
\<close>

theorem UpdateImpl_always_succeeds:
  "fst (UpdateImpl this A D) = True
   \<and> snd (UpdateImpl this A D) = this
   \<and> RightMultiplyAndAccumulate (snd (UpdateImpl this A D)) x y
       = RightMultiplyAndAccumulate this x y"
  by (simp add: UpdateImpl_def)


section \<open>Properties of the trust-region minimizer\<close>

subsection \<open>Projections and evaluation\<close>

lemma CheckTermination_fields [simp]:
  "cur_x (CheckTermination P opts s) = cur_x s"
  "cur_cost (CheckTermination P opts s) = cur_cost s"
  "best_x (CheckTermination P opts s) = best_x s"
  "minimum_cost (CheckTermination P opts s) = minimum_cost s"
  "radius (CheckTermination P opts s) = radius s"
  "num_consecutive_invalid_steps (CheckTermination P opts s) = num_consecutive_invalid_steps s"
  "iterations (CheckTermination P opts s) = iterations s"
  "visited (CheckTermination P opts s) = visited s"
  by (simp_all add: CheckTermination_def split: option.splits)

lemma record_iteration_fields [simp]:
  "cur_x (record_iteration P v nm su ch sn rho s) = cur_x s"
  "cur_cost (record_iteration P v nm su ch sn rho s) = cur_cost s"
  "best_x (record_iteration P v nm su ch sn rho s) = best_x s"
  "minimum_cost (record_iteration P v nm su ch sn rho s) = minimum_cost s"
  "radius (record_iteration P v nm su ch sn rho s) = radius s"
  "num_consecutive_invalid_steps (record_iteration P v nm su ch sn rho s)
     = num_consecutive_invalid_steps s"
  "termination_reason (record_iteration P v nm su ch sn rho s) = termination_reason s"
  "visited (record_iteration P v nm su ch sn rho s) = visited s @ [cur_x s]"
  by (simp_all add: record_iteration_def)

lemma record_iteration_iterations:
  "\<exists>summary. iterations (record_iteration P v nm su ch sn rho s) = iterations s @ [summary]
     \<and> cost summary = cur_cost s \<and> trust_region_radius summary = radius s
     \<and> step_is_valid summary = v \<and> step_is_successful summary = su
     \<and> step_is_nonmonotonic summary = nm \<and> relative_decrease summary = rho
     \<and> cost_change summary = ch"
  by (simp add: record_iteration_def)

lemma best_inv_termination [simp]:
  "best_inv P (s\<lparr>termination_reason := r\<rparr>) = best_inv P s"
  by (simp add: best_inv_def)

lemma best_inv_CheckTermination [simp]:
  "best_inv P (CheckTermination P' opts s) = best_inv P s"
  by (simp add: best_inv_def)

lemma best_inv_record:
  assumes "minimum_cost s = Evaluate P (best_x s)"
    and "best_x s \<in> set (visited s) \<or> best_x s = cur_x s"
    and "list_all2 (\<lambda>v summary. cost summary = Evaluate P v) (visited s) (iterations s)"
    and "\<forall>summary \<in> set (iterations s). minimum_cost s \<le> cost summary"
    and "cur_cost s = Evaluate P (cur_x s)"
    and "minimum_cost s \<le> cur_cost s"
  shows "best_inv P (record_iteration P v nm su ch sn rho s)"
proof -
  obtain summary where it: "iterations (record_iteration P v nm su ch sn rho s) = iterations s @ [summary]"
    and c: "cost summary = cur_cost s"
    using record_iteration_iterations by blast
  show ?thesis
    using assms c unfolding best_inv_def it
    by (auto intro!: list_all2_appendI)
qed

lemma best_invD:
  assumes "best_inv P s"
  shows "minimum_cost s = Evaluate P (best_x s)"
    and "best_x s \<in> set (visited s)"
    and "list_all2 (\<lambda>v summary. cost summary = Evaluate P v) (visited s) (iterations s)"
    and "\<forall>summary \<in> set (iterations s). minimum_cost s \<le> cost summary"
    and "cur_cost s = Evaluate P (cur_x s)"
    and "minimum_cost s \<le> cur_cost s"
  using assms unfolding best_inv_def by blast+

lemma best_inv_HandleInvalidStep:
  assumes "best_inv P s"
  shows "best_inv P (HandleInvalidStep P opts s)"
  unfolding HandleInvalidStep_def Let_def
  using best_invD [OF assms]
  by (auto intro!: best_inv_record)

lemma best_inv_HandleValidStep:
  assumes "best_inv P s"
  shows "best_inv P (HandleValidStep P opts s delta m)"
  unfolding HandleValidStep_def Let_def AcceptStep_def
  using best_invD [OF assms]
  by (auto intro!: best_inv_record; force)

lemma best_inv_TrustRegionIteration:
  "best_inv P s \<Longrightarrow> best_inv P (TrustRegionIteration P opts s)"
  unfolding TrustRegionIteration_def
  by (simp add: best_inv_HandleInvalidStep best_inv_HandleValidStep split: TrustRegionStep.splits)

lemma best_inv_loop:
  "best_inv P s \<Longrightarrow> best_inv P (trust_region_loop P opts n s)"
  by (induction n arbitrary: s) (auto simp: best_inv_TrustRegionIteration split: option.splits)

lemma best_inv_StartState: "best_inv P (StartState P opts x0)"
  unfolding StartState_def
  by (auto intro!: best_inv_record)

lemma best_inv_Minimize: "best_inv P (Minimize P opts x0)"
  unfolding Minimize_def by (rule best_inv_loop [OF best_inv_StartState])

lemmas run_defs = Solve_def IsValid_def is_iterative_solver_def Minimize_def StartState_def
  CheckTermination_def record_iteration_def TrustRegionIteration_def HandleInvalidStep_def
  HandleValidStep_def IsStepSuccessful_def UpdateRadius_def AcceptStep_def
  nonmonotonic_window_def Let_def eval_nat_numeral


subsection \<open>The returned parameters\<close>

text \<open>
  Claim C1, as stated, at a concrete input: on \<open>descent_problem\<close> the step from \<open>[1]\<close> to
  \<open>[0]\<close> is accepted and lowers the cost from \<open>1/2\<close> to \<open>0\<close>; the callback then aborts, and
  the parameters the user gets back are the initial \<open>[1]\<close>, not the iterate of minimum cost.
\<close>

theorem abort_keeps_initial_parameters:
  "\<not> isl (Solve descent_problem abort_options [1])
   \<and> final_parameters (projr (Solve descent_problem abort_options [1])) = [1]
   \<and> Evaluate descent_problem [1] = 1 / 2
   \<and> visited (Minimize descent_problem abort_options [1]) = [[1], [0]]
   \<and> map cost (summary_iterations (projr (Solve descent_problem abort_options [1]))) = [1 / 2, 0]
   \<and> termination_type (projr (Solve descent_problem abort_options [1])) = USER_FAILURE"
  by (simp add: run_defs default_options_def abort_options_def descent_problem_def
      abort_after_first_def)

lemma termination_type_USER_FAILURE:
  "termination_type_of reason = USER_FAILURE \<longleftrightarrow> reason = CallbackAbort"
  by (cases reason) simp_all

text \<open>
  Claim C1, amended. For every trust-region solve that is not ended by a callback's
  \<open>SOLVER_ABORT\<close> (termination type \<open>USER_FAILURE\<close>), or that runs with
  \<open>update_state_every_iteration\<close>, the parameters returned to the user are an iterate of
  the solve, the final cost is their cost, and the final cost is less than or equal to the
  cost of every iteration; so they are the iterate of minimum cost, whether or not it is
  the last accepted one. After \<open>SOLVER_ABORT\<close> without \<open>update_state_every_iteration\<close>
  the parameters are returned as they were passed in.
\<close>

theorem Solve_returns_minimum_cost_iterate:
  assumes "Solve P opts x0 = Inr sm"
  shows "(termination_type sm \<noteq> USER_FAILURE \<or> update_state_every_iteration opts
          \<longrightarrow> final_parameters sm \<in> set (visited (Minimize P opts x0))
            \<and> final_cost sm = Evaluate P (final_parameters sm)
            \<and> list_all2 (\<lambda>v summary. cost summary = Evaluate P v)
                 (visited (Minimize P opts x0)) (summary_iterations sm)
            \<and> (\<forall>summary \<in> set (summary_iterations sm). final_cost sm \<le> cost summary))
     \<and> (termination_type sm = USER_FAILURE \<and> \<not> update_state_every_iteration opts
          \<longrightarrow> final_parameters sm = x0)"
proof -
  let ?s = "Minimize P opts x0"
  let ?untouched = "termination_reason ?s = Some CallbackAbort
                        \<and> \<not> update_state_every_iteration opts"
  have inv: "best_inv P ?s" by (rule best_inv_Minimize)
  from assms have sm: "sm =
      \<lparr>termination_type =
         (case termination_reason ?s of Some reason \<Rightarrow> termination_type_of reason
          | None \<Rightarrow> NO_CONVERGENCE),
       initial_cost = Evaluate P x0,
       final_cost = (if ?untouched then Evaluate P x0 else minimum_cost ?s),
       summary_iterations = iterations ?s,
       final_parameters = (if ?untouched then x0 else best_x ?s)\<rparr>"
    by (auto simp: Solve_def Let_def split: sum.splits)
  have abort: "termination_type sm = USER_FAILURE
                 \<longleftrightarrow> termination_reason ?s = Some CallbackAbort"
    by (simp add: sm termination_type_USER_FAILURE split: option.splits)
  have kept: "final_parameters sm = x0" if "?untouched"
    using that by (simp add: sm)
  have best: "final_parameters sm \<in> set (visited ?s)
            \<and> final_cost sm = Evaluate P (final_parameters sm)
            \<and> list_all2 (\<lambda>v summary. cost summary = Evaluate P v)
                 (visited ?s) (summary_iterations sm)
            \<and> (\<forall>summary \<in> set (summary_iterations sm). final_cost sm \<le> cost summary)"
    if "\<not> ?untouched"
    using best_invD [OF inv] that by (auto simp: sm)
  from abort kept best show ?thesis by blast
qed

theorem Solve_returns_minimum_cost_iterate_witness:
  "Solve bumpy_problem nonmonotonic_options [0]
     = Inr (projr (Solve bumpy_problem nonmonotonic_options [0]))
   \<and> termination_type (projr (Solve bumpy_problem nonmonotonic_options [0])) = NO_CONVERGENCE
   \<and> visited (Minimize bumpy_problem nonmonotonic_options [0]) = [[0], [1], [2]]
   \<and> final_parameters (projr (Solve bumpy_problem nonmonotonic_options [0])) = [1]
   \<and> final_parameters (projr (Solve bumpy_problem nonmonotonic_options [0]))
       \<in> set (visited (Minimize bumpy_problem nonmonotonic_options [0]))
   \<and> final_cost (projr (Solve bumpy_problem nonmonotonic_options [0]))
       = Evaluate bumpy_problem (final_parameters (projr (Solve bumpy_problem nonmonotonic_options [0])))
   \<and> termination_type (projr (Solve descent_problem abort_options [1])) = USER_FAILURE
   \<and> \<not> update_state_every_iteration abort_options
   \<and> final_parameters (projr (Solve descent_problem abort_options [1])) = [1]"
proof -
  let ?r = "Solve bumpy_problem nonmonotonic_options [0]"
  have a: "?r = Inr (projr ?r)"
    by (simp add: run_defs default_options_def bumpy_problem_def nonmonotonic_options_def)
  have b: "termination_type (projr ?r) = NO_CONVERGENCE"
    by (simp add: run_defs default_options_def bumpy_problem_def nonmonotonic_options_def)
  have c: "visited (Minimize bumpy_problem nonmonotonic_options [0]) = [[0], [1], [2]]"
    by (simp add: run_defs default_options_def bumpy_problem_def nonmonotonic_options_def)
  have d: "final_parameters (projr ?r) = [1]"
    by (simp add: run_defs default_options_def bumpy_problem_def nonmonotonic_options_def)
  from b have e: "termination_type (projr ?r) \<noteq> USER_FAILURE
      \<or> update_state_every_iteration nonmonotonic_options"
    by simp
  note t = Solve_returns_minimum_cost_iterate [OF a]
  from t e have "final_parameters (projr ?r)
       \<in> set (visited (Minimize bumpy_problem nonmonotonic_options [0]))
     \<and> final_cost (projr ?r) = Evaluate bumpy_problem (final_parameters (projr ?r))"
    by (rule_tac conjI) (blast+)
  then have f: "final_parameters (projr ?r)
       \<in> set (visited (Minimize bumpy_problem nonmonotonic_options [0]))"
    and g: "final_cost (projr ?r) = Evaluate bumpy_problem (final_parameters (projr ?r))"
    by blast+
  let ?q = "Solve descent_problem abort_options [1]"
  have a': "?q = Inr (projr ?q)"
    by (simp add: run_defs default_options_def abort_options_def descent_problem_def
        abort_after_first_def)
  have b': "termination_type (projr ?q) = USER_FAILURE"
    by (simp add: run_defs default_options_def abort_options_def descent_problem_def
        abort_after_first_def)
  have c': "\<not> update_state_every_iteration abort_options"
    by (simp add: default_options_def abort_options_def)
  from Solve_returns_minimum_cost_iterate [OF a'] b' c'
  have d': "final_parameters (projr ?q) = [1]"
    by blast
  from a b c d f g b' c' d' show ?thesis by (intro conjI)
qed


subsection \<open>One iteration\<close>



subsection \<open>The radius\<close>
















lemma update_inv_termination [simp]:
  "update_inv P opts (s\<lparr>termination_reason := r\<rparr>) = update_inv P opts s"
  by (simp add: update_inv_def)

lemma update_inv_CheckTermination [simp]:
  "update_inv P opts (CheckTermination P' opts' s) = update_inv P opts s"
  by (simp add: update_inv_def)













subsection \<open>Acceptance of a step\<close>

lemma last_record_iteration [simp]:
  "last (iterations (record_iteration P v nm su ch sn rho s)) =
     \<lparr>iteration = int (length (iterations s)),
      step_is_valid = v,
      step_is_nonmonotonic = nm,
      step_is_successful = su,
      cost = cur_cost s,
      cost_change = ch,
      gradient_max_norm = GradientMaxNorm P (cur_x s),
      step_norm = sn,
      relative_decrease = rho,
      trust_region_radius = radius s\<rparr>"
  by (simp add: record_iteration_def)






subsection \<open>Validation of the options\<close>

text \<open>
  Claim C6. Selecting Dogleg together with an iterative linear solver (\<open>CGNR\<close> or
  \<open>ITERATIVE_SCHUR\<close>) fails validation with a non-empty message; whatever validation
  rejects, \<open>Solve\<close> reports with that message and runs nothing, whatever the problem and
  the starting point; and a solve that returns a summary has run with options that passed
  validation as given.
\<close>

theorem invalid_options_are_rejected:
  "(trust_region_strategy_type opts = DOGLEG
      \<and> (linear_solver_type opts = CGNR \<or> linear_solver_type opts = ITERATIVE_SCHUR)
    \<longrightarrow> (\<exists>error. error \<noteq> [] \<and> IsValid opts = Inl error))
   \<and> (IsValid opts = Inl error \<longrightarrow> Solve P opts x0 = Inl error)
   \<and> (Solve P opts x0 = Inr sm \<longrightarrow> IsValid opts = Inr ())"
  by (auto simp: IsValid_def is_iterative_solver_def Solve_def Let_def split: sum.splits)

theorem invalid_options_are_rejected_witness:
  "trust_region_strategy_type dogleg_cgnr_options = DOGLEG
   \<and> linear_solver_type dogleg_cgnr_options = CGNR
   \<and> (\<exists>error. error \<noteq> [] \<and> IsValid dogleg_cgnr_options = Inl error
         \<and> Solve descent_problem dogleg_cgnr_options [1] = Inl error)"
proof -
  have a: "trust_region_strategy_type dogleg_cgnr_options = DOGLEG"
    and b: "linear_solver_type dogleg_cgnr_options = CGNR"
    by (simp_all add: dogleg_cgnr_options_def)
  from a b obtain error where e: "error \<noteq> []" "IsValid dogleg_cgnr_options = Inl error"
    using invalid_options_are_rejected [of dogleg_cgnr_options] by blast
  from e(2) have "Solve descent_problem dogleg_cgnr_options [1] = Inl error"
    using invalid_options_are_rejected [of dogleg_cgnr_options error descent_problem "[1]"]
    by blast
  with a b e show ?thesis by blast
qed

end
